theory Spec2Isabelle
  imports Main "HOL-Library.Word" "HOL-Library.Signed_Division"
begin

section \<open>Data of bot.go\<close>

text \<open>
  Go's \<open>int\<close> is a 64-bit two's-complement integer on the 64-bit targets; \<open>+\<close> wraps
  around. \<open>time.Duration\<close> is an \<open>int64\<close> count of nanoseconds. An \<open>error\<close> value is
  represented by its message.
\<close>

type_synonym go_int = "64 word"
type_synonym Duration = "64 word"
type_synonym error = string

text \<open>
  Modelled from the spec: the declarations of \<open>Message\<close>, \<open>Query\<close>, \<open>Callback\<close>,
  \<open>Update\<close>, \<open>QueryResponse\<close> and \<open>CallbackResponse\<close> are not part of bot.go. The
  records below carry the fields that bot.go reads or writes (\<open>update.ID\<close>,
  \<open>update.Payload\<close>, \<open>update.Query\<close>, \<open>update.Callback\<close>, \<open>message.ID\<close>,
  \<open>query.ID\<close>, \<open>callback.ID\<close>, \<open>response.QueryID\<close>, \<open>response.CallbackID\<close>) and one
  further field each, which stands for the rest of the struct. A pointer field that may
  be \<open>nil\<close> is an \<open>option\<close>.
\<close>

record Message =
  ID :: go_int
  Text :: string

record Query =
  ID :: string
  Text :: string

record Callback =
  ID :: string
  Data :: string

record Update =
  ID :: go_int
  Payload :: "Message option"
  Query :: "Query option"
  Callback :: "Callback option"

record QueryResponse =
  QueryID :: string
  CacheTime :: go_int

record CallbackResponse =
  CallbackID :: string
  Text :: string

text \<open>
  A channel value is either \<open>nil\<close> (\<open>None\<close>) or a channel, represented by the sequence
  of values sent on it so far, oldest first. A send appends to that sequence; the
  receivers are assumed to take every value, so a send always completes.
\<close>

type_synonym 'a chan = "'a list option"

record 'u Bot =
  Token :: string
  Identity :: 'u
  Messages :: "Message chan"
  Queries :: "Query chan"
  Callbacks :: "Callback chan"

section \<open>The poll loop\<close>

text \<open>
  The state of one running \<open>poll\<close>: its local \<open>latestUpdate\<close>, its three channel
  parameters, and what it has done to the outside so far: the arguments of every
  \<open>getUpdates\<close> call (token, offset, timeout in seconds) and the errors handed to
  \<open>log.Println\<close> after the text \<open>failed to get updates:\<close>.
\<close>

record poll_state =
  latestUpdate :: go_int
  messages :: "Message chan"
  queries :: "Query chan"
  callbacks :: "Callback chan"
  requests :: "(string \<times> go_int \<times> go_int) list"
  logged :: "error list"

text \<open>
  The body of \<open>for _, update := range updates\<close>. Each \<open>continue\<close> leaves the body
  before the assignment \<open>latestUpdate = update.ID\<close>.
\<close>

definition route :: "Update \<Rightarrow> poll_state \<Rightarrow> poll_state" where
  "route update s =
     (case Payload update of
        Some m \<Rightarrow>
          (case messages s of
             None \<Rightarrow> s
           | Some ch \<Rightarrow> s\<lparr>latestUpdate := Update.ID update, messages := Some (ch @ [m])\<rparr>)
      | None \<Rightarrow>
          (case Update.Query update of
             Some q \<Rightarrow>
               (case queries s of
                  None \<Rightarrow> s
                | Some ch \<Rightarrow> s\<lparr>latestUpdate := Update.ID update, queries := Some (ch @ [q])\<rparr>)
           | None \<Rightarrow>
               (case Update.Callback update of
                  Some c \<Rightarrow>
                    (case callbacks s of
                       None \<Rightarrow> s
                     | Some ch \<Rightarrow>
                         s\<lparr>latestUpdate := Update.ID update, callbacks := Some (ch @ [c])\<rparr>)
                | None \<Rightarrow> s\<lparr>latestUpdate := Update.ID update\<rparr>)))"

definition route_all :: "Update list \<Rightarrow> poll_state \<Rightarrow> poll_state" where
  "route_all updates s = foldl (\<lambda>s update. route update s) s updates"

text \<open>\<open>int(timeout/time.Second)\<close>: signed division truncating towards zero.\<close>

definition seconds :: "Duration \<Rightarrow> go_int" where
  "seconds timeout = word_of_int (sint timeout sdiv 1000000000)"

text \<open>
  One pass through the body of \<open>for { ... }\<close>. \<open>getUpdates\<close> is outside bot.go: its
  answer to the call is the argument \<open>r\<close>, \<open>Inl err\<close> for \<open>err != nil\<close> and
  \<open>Inr updates\<close> otherwise.
\<close>

definition poll_cycle ::
  "string \<Rightarrow> Duration \<Rightarrow> error + Update list \<Rightarrow> poll_state \<Rightarrow> poll_state" where
  "poll_cycle token timeout r s =
     (let s1 = s\<lparr>requests := requests s @ [(token, latestUpdate s + 1, seconds timeout)]\<rparr>
      in case r of
           Inl err \<Rightarrow> s1\<lparr>logged := logged s1 @ [err]\<rparr>
         | Inr updates \<Rightarrow> route_all updates s1)"

definition poll_cycles ::
  "string \<Rightarrow> Duration \<Rightarrow> (error + Update list) list \<Rightarrow> poll_state \<Rightarrow> poll_state" where
  "poll_cycles token timeout rs s = foldl (\<lambda>s r. poll_cycle token timeout r s) s rs"

text \<open>
  \<open>poll\<close> never returns. \<open>poll b messages queries callbacks timeout rs\<close> is its state
  when the loop has gone through \<open>length rs\<close> passes, \<open>rs\<close> being the answers of
  \<open>getUpdates\<close> in the order of the calls.
\<close>

definition poll ::
  "'u Bot \<Rightarrow> Message chan \<Rightarrow> Query chan \<Rightarrow> Callback chan \<Rightarrow> Duration \<Rightarrow>
   (error + Update list) list \<Rightarrow> poll_state" where
  "poll b messages' queries' callbacks' timeout rs =
     poll_cycles (Token b) timeout rs
       \<lparr>latestUpdate = 0, messages = messages', queries = queries',
        callbacks = callbacks', requests = [], logged = []\<rparr>"

definition Listen :: "'u Bot \<Rightarrow> Message chan \<Rightarrow> Duration \<Rightarrow> (error + Update list) list \<Rightarrow> poll_state" where
  "Listen b subscription timeout rs = poll b subscription None None timeout rs"

definition Start :: "'u Bot \<Rightarrow> Duration \<Rightarrow> (error + Update list) list \<Rightarrow> poll_state" where
  "Start b timeout rs = poll b (Messages b) (Queries b) (Callbacks b) timeout rs"

text \<open>
  The updates the loop has ranged over after the answers \<open>rs\<close>: those of the
  successful fetches, in order. A failed fetch contributes none (\<open>continue\<close>).
\<close>

fun fetched :: "(error + Update list) list \<Rightarrow> Update list" where
  "fetched [] = []"
| "fetched (Inl err # rs) = fetched rs"
| "fetched (Inr updates # rs) = updates @ fetched rs"


section \<open>Answering queries\<close>

text \<open>
  The struct that the answer of the remote call is decoded into.
\<close>

record messageResponse =
  Ok :: bool
  Description :: string

text \<open>
  \<open>sendCommand\<close> and \<open>json.Unmarshal\<close> are outside bot.go and are parameters:
  \<open>sendCommand method token payload\<close> gives \<open>Inl err\<close> or \<open>Inr responseJSON\<close>, and
  \<open>unmarshal responseJSON\<close> gives \<open>Inl err\<close> or the decoded struct. The pointer
  arguments \<open>query\<close> and \<open>response\<close> are options; dereferencing \<open>nil\<close> panics, which is
  the result \<open>None\<close>. Otherwise the result is the object \<open>response\<close> points to when the
  function returns, with the returned error (\<open>None\<close> for \<open>nil\<close>).
\<close>

definition AnswerInlineQuery ::
  "(string \<Rightarrow> string \<Rightarrow> QueryResponse \<Rightarrow> error + string) \<Rightarrow>
   (string \<Rightarrow> error + messageResponse) \<Rightarrow>
   'u Bot \<Rightarrow> Query option \<Rightarrow> QueryResponse option \<Rightarrow> (QueryResponse \<times> error option) option" where
  "AnswerInlineQuery sendCommand unmarshal b query response =
     (case (query, response) of
        (Some q, Some r) \<Rightarrow>
          (let r' = r\<lparr>QueryID := Query.ID q\<rparr>
           in case sendCommand ''answerInlineQuery'' (Token b) r' of
                Inl err \<Rightarrow> Some (r', Some err)
              | Inr responseJSON \<Rightarrow>
                  (case unmarshal responseJSON of
                     Inl err \<Rightarrow> Some (r', Some err)
                   | Inr responseRecieved \<Rightarrow>
                       if \<not> Ok responseRecieved
                       then Some (r', Some (''telebot: '' @ Description responseRecieved))
                       else Some (r', None)))
      | _ \<Rightarrow> None)"

definition AnswerCallbackQuery ::
  "(string \<Rightarrow> string \<Rightarrow> CallbackResponse \<Rightarrow> error + string) \<Rightarrow>
   (string \<Rightarrow> error + messageResponse) \<Rightarrow>
   'u Bot \<Rightarrow> Callback option \<Rightarrow> CallbackResponse option \<Rightarrow>
   (CallbackResponse \<times> error option) option" where
  "AnswerCallbackQuery sendCommand unmarshal b callback response =
     (case (callback, response) of
        (Some c, Some r) \<Rightarrow>
          (let r' = r\<lparr>CallbackID := Callback.ID c\<rparr>
           in case sendCommand ''answerCallbackQuery'' (Token b) r' of
                Inl err \<Rightarrow> Some (r', Some err)
              | Inr responseJSON \<Rightarrow>
                  (case unmarshal responseJSON of
                     Inl err \<Rightarrow> Some (r', Some err)
                   | Inr responseRecieved \<Rightarrow>
                       if \<not> Ok responseRecieved
                       then Some (r', Some (''telebot: '' @ Description responseRecieved))
                       else Some (r', None)))
      | _ \<Rightarrow> None)"

section \<open>Unfolding the loops\<close>

lemma route_all_Nil: "route_all [] s = s"
  by (simp add: route_all_def)

lemma route_all_Cons: "route_all (u # us) s = route_all us (route u s)"
  by (simp add: route_all_def)

lemma route_all_append: "route_all (us @ vs) s = route_all vs (route_all us s)"
  by (simp add: route_all_def)

lemma poll_cycles_Nil: "poll_cycles token t [] s = s"
  by (simp add: poll_cycles_def)

lemma poll_cycles_Cons:
  "poll_cycles token t (r # rs) s = poll_cycles token t rs (poll_cycle token t r s)"
  by (simp add: poll_cycles_def)

lemma poll_cycles_append:
  "poll_cycles token t (rs @ rs') s = poll_cycles token t rs' (poll_cycles token t rs s)"
  by (simp add: poll_cycles_def)

lemmas poll_simps =
  poll_def poll_cycles_Nil poll_cycles_Cons poll_cycle_def route_all_Nil route_all_Cons
  route_def Let_def

section \<open>Routing one batch\<close>

text \<open>
  C7. When the fetcher returns the batch of update 5 carrying a message and update 6
  carrying a query, and the message and query channels are both set, one cycle sends
  exactly the message of update 5 on the message channel, exactly the query of update 6
  on the query channel, and leaves the cursor at 6. The loop has issued one fetch, from
  offset 1, and has logged nothing.
\<close>

theorem poll_end_to_end:
  "poll b (Some ms) (Some qs) cs t
     [Inr [\<lparr>Update.ID = 5, Payload = Some m, Query = None, Callback = None\<rparr>,
           \<lparr>Update.ID = 6, Payload = None, Query = Some q, Callback = None\<rparr>]]
   = \<lparr>latestUpdate = 6, messages = Some (ms @ [m]), queries = Some (qs @ [q]),
      callbacks = cs, requests = [(Token b, 1, seconds t)], logged = []\<rparr>"
  by (simp add: poll_simps)

text \<open>
  C6. An update in which none of the three payload slots is populated changes nothing
  but the cursor: no error is logged, nothing is sent on any channel, and the cursor
  becomes that update's identifier, wherever in a batch the update stands.
\<close>

theorem route_no_payload:
  assumes "Payload u = None" and "Update.Query u = None" and "Update.Callback u = None"
  shows "route u s = s\<lparr>latestUpdate := Update.ID u\<rparr> \<and>
         route_all (us @ u # vs) s =
           route_all vs ((route_all us s)\<lparr>latestUpdate := Update.ID u\<rparr>)"
  using assms by (simp add: route_def route_all_append route_all_Cons)

theorem route_no_payload_witness:
  "route \<lparr>Update.ID = 7, Payload = None, Query = None, Callback = None\<rparr>
     \<lparr>latestUpdate = 4, messages = Some [], queries = Some [], callbacks = None,
      requests = [(''token'', 5, 30)], logged = []\<rparr>
   = \<lparr>latestUpdate = 7, messages = Some [], queries = Some [], callbacks = None,
      requests = [(''token'', 5, 30)], logged = []\<rparr>"
  using route_no_payload
    [of "\<lparr>Update.ID = 7, Payload = None, Query = None, Callback = None\<rparr>"
        "\<lparr>latestUpdate = 4, messages = Some [], queries = Some [], callbacks = None,
          requests = [(''token'', 5, 30)], logged = []\<rparr>"]
  by simp

text \<open>
  C1, as stated: an update whose channel is unset is dropped and the cursor still moves
  to its identifier, so that the batch of message 5 and query 6, with the query channel
  unset, ends with the cursor at 6. The loop leaves the cursor at 5: the \<open>continue\<close> of
  the unset channel skips the assignment to \<open>latestUpdate\<close>.
\<close>

theorem poll_dropped_cursor_counterexample:
  "latestUpdate
     (poll \<lparr>Token = ''token'', Identity = (), Messages = None, Queries = None, Callbacks = None\<rparr>
        (Some []) None None 30000000000
        [Inr [\<lparr>Update.ID = 5, Payload = Some \<lparr>Message.ID = 1, Text = ''hi''\<rparr>,
                 Query = None, Callback = None\<rparr>,
              \<lparr>Update.ID = 6, Payload = None, Query = Some \<lparr>Query.ID = ''q1'', Text = ''''\<rparr>,
                 Callback = None\<rparr>]])
   \<noteq> 6"
  by (simp add: poll_simps)

text \<open>
  C1, amended. An update with exactly one populated payload slot whose channel is unset
  is dropped and leaves the whole state of the loop as it was, the cursor included. For
  the batch of message 5 and query 6 with the query channel unset, the message channel
  receives the message of update 5 and the cursor ends at 5.
\<close>

theorem route_dropped_unchanged:
  "((Payload u \<noteq> None \<and> Update.Query u = None \<and> Update.Callback u = None \<and>
       messages s = None) \<or>
    (Payload u = None \<and> Update.Query u \<noteq> None \<and> Update.Callback u = None \<and>
       queries s = None) \<or>
    (Payload u = None \<and> Update.Query u = None \<and> Update.Callback u \<noteq> None \<and>
       callbacks s = None)
    \<longrightarrow> route u s = s) \<and>
   poll b (Some ms) None cs t
     [Inr [\<lparr>Update.ID = 5, Payload = Some m, Query = None, Callback = None\<rparr>,
           \<lparr>Update.ID = 6, Payload = None, Query = Some q, Callback = None\<rparr>]]
   = \<lparr>latestUpdate = 5, messages = Some (ms @ [m]), queries = None,
      callbacks = cs, requests = [(Token b, 1, seconds t)], logged = []\<rparr>"
  by (auto simp add: poll_simps split: option.splits)

theorem route_dropped_unchanged_witness:
  "route \<lparr>Update.ID = 6, Payload = None, Query = Some \<lparr>Query.ID = ''q1'', Text = ''''\<rparr>,
           Callback = None\<rparr>
     \<lparr>latestUpdate = 5, messages = Some [], queries = None, callbacks = None,
      requests = [(''token'', 1, 30)], logged = []\<rparr>
   = \<lparr>latestUpdate = 5, messages = Some [], queries = None, callbacks = None,
      requests = [(''token'', 1, 30)], logged = []\<rparr>"
  using route_dropped_unchanged
    [of "\<lparr>Update.ID = 6, Payload = None, Query = Some \<lparr>Query.ID = ''q1'', Text = ''''\<rparr>,
           Callback = None\<rparr>"
        "\<lparr>latestUpdate = 5, messages = Some [], queries = None, callbacks = None,
          requests = [(''token'', 1, 30)], logged = []\<rparr>",
     THEN conjunct1]
  by simp

text \<open>
  C3, as stated: an update with more than one populated payload slot sends nothing on
  any channel. An update carrying both a message and a query has its message sent on
  the message channel.
\<close>

theorem route_two_slots_counterexample:
  "messages
     (route \<lparr>Update.ID = 8, Payload = Some \<lparr>Message.ID = 1, Text = ''hi''\<rparr>,
              Query = Some \<lparr>Query.ID = ''q1'', Text = ''''\<rparr>, Callback = None\<rparr>
        \<lparr>latestUpdate = 7, messages = Some [], queries = Some [], callbacks = Some [],
         requests = [(''token'', 8, 30)], logged = []\<rparr>)
   \<noteq> Some []"
  by (simp add: route_def)

text \<open>
  C3, amended. An update with no populated payload slot sends nothing on any channel.
  An update with more than one populated slot is routed by its first populated slot in
  the order Message, Query, Callback: it is handled as the update with the later slots
  cleared.
\<close>

theorem route_first_slot:
  "(Payload u = None \<and> Update.Query u = None \<and> Update.Callback u = None \<longrightarrow>
      messages (route u s) = messages s \<and> queries (route u s) = queries s \<and>
      callbacks (route u s) = callbacks s) \<and>
   (Payload u \<noteq> None \<longrightarrow> route u s = route (u\<lparr>Query := None, Callback := None\<rparr>) s) \<and>
   (Payload u = None \<and> Update.Query u \<noteq> None \<longrightarrow>
      route u s = route (u\<lparr>Callback := None\<rparr>) s)"
  by (auto simp add: route_def split: option.splits)

theorem route_first_slot_witness:
  "callbacks
     (route \<lparr>Update.ID = 9, Payload = None, Query = None, Callback = None\<rparr>
        \<lparr>latestUpdate = 7, messages = Some [], queries = Some [], callbacks = Some [],
         requests = [], logged = []\<rparr>) = Some [] \<and>
   route \<lparr>Update.ID = 8, Payload = Some \<lparr>Message.ID = 1, Text = ''hi''\<rparr>,
           Query = Some \<lparr>Query.ID = ''q1'', Text = ''''\<rparr>, Callback = None\<rparr>
     \<lparr>latestUpdate = 7, messages = Some [], queries = Some [], callbacks = Some [],
      requests = [], logged = []\<rparr>
   = route \<lparr>Update.ID = 8, Payload = Some \<lparr>Message.ID = 1, Text = ''hi''\<rparr>,
             Query = None, Callback = None\<rparr>
       \<lparr>latestUpdate = 7, messages = Some [], queries = Some [], callbacks = Some [],
        requests = [], logged = []\<rparr> \<and>
   route \<lparr>Update.ID = 8, Payload = None, Query = Some \<lparr>Query.ID = ''q1'', Text = ''''\<rparr>,
           Callback = Some \<lparr>Callback.ID = ''c1'', Data = ''''\<rparr>\<rparr>
     \<lparr>latestUpdate = 7, messages = Some [], queries = Some [], callbacks = Some [],
      requests = [], logged = []\<rparr>
   = route \<lparr>Update.ID = 8, Payload = None, Query = Some \<lparr>Query.ID = ''q1'', Text = ''''\<rparr>,
             Callback = None\<rparr>
       \<lparr>latestUpdate = 7, messages = Some [], queries = Some [], callbacks = Some [],
        requests = [], logged = []\<rparr>"
  using
    route_first_slot
      [of "\<lparr>Update.ID = 9, Payload = None, Query = None, Callback = None\<rparr>"
          "\<lparr>latestUpdate = 7, messages = Some [], queries = Some [], callbacks = Some [],
            requests = [], logged = []\<rparr>"]
    route_first_slot
      [of "\<lparr>Update.ID = 8, Payload = Some \<lparr>Message.ID = 1, Text = ''hi''\<rparr>,
             Query = Some \<lparr>Query.ID = ''q1'', Text = ''''\<rparr>, Callback = None\<rparr>"
          "\<lparr>latestUpdate = 7, messages = Some [], queries = Some [], callbacks = Some [],
            requests = [], logged = []\<rparr>"]
    route_first_slot
      [of "\<lparr>Update.ID = 8, Payload = None, Query = Some \<lparr>Query.ID = ''q1'', Text = ''''\<rparr>,
             Callback = Some \<lparr>Callback.ID = ''c1'', Data = ''''\<rparr>\<rparr>"
          "\<lparr>latestUpdate = 7, messages = Some [], queries = Some [], callbacks = Some [],
            requests = [], logged = []\<rparr>"]
  by simp

section \<open>Fetching\<close>

lemma poll_cycles_errors:
  "poll_cycles token t (map Inl errs) s =
     s\<lparr>requests := requests s @ replicate (length errs) (token, latestUpdate s + 1, seconds t),
       logged := logged s @ errs\<rparr>"
proof (induction errs arbitrary: s)
  case Nil
  show ?case by (simp add: poll_cycles_Nil)
next
  case (Cons e errs)
  show ?case
    by (simp add: poll_cycles_Cons Cons.IH poll_cycle_def Let_def replicate_app_Cons_same)
qed

text \<open>
  C4. A fetch that returns an error is logged and followed at once by the next fetch,
  with the same offset: after any number of failed fetches in a row the state differs
  only by the logged errors and by as many identical requests; the cursor and the
  channels are as before and the loop goes on. When the fetcher fails twice and then
  returns update 1 carrying a message, three fetches from offset 1 have been issued, the
  message has been sent and the cursor is 1.
\<close>

theorem poll_fetch_error_retry:
  "poll_cycles token t (map Inl errs) s =
     s\<lparr>requests := requests s @ replicate (length errs) (token, latestUpdate s + 1, seconds t),
       logged := logged s @ errs\<rparr> \<and>
   poll b (Some ms) qs cs t
     [Inl e1, Inl e2, Inr [\<lparr>Update.ID = 1, Payload = Some m, Query = None, Callback = None\<rparr>]]
   = \<lparr>latestUpdate = 1, messages = Some (ms @ [m]), queries = qs, callbacks = cs,
      requests = [(Token b, 1, seconds t), (Token b, 1, seconds t), (Token b, 1, seconds t)],
      logged = [e1, e2]\<rparr>"
  by (simp add: poll_cycles_errors) (simp add: poll_simps)

lemma requests_route: "requests (route u s) = requests s"
  by (simp add: route_def split: option.splits)

lemma requests_route_all: "requests (route_all us s) = requests s"
  by (induction us arbitrary: s) (simp_all add: route_all_Nil route_all_Cons requests_route)

lemma requests_poll_cycle:
  "requests (poll_cycle token t r s) = requests s @ [(token, latestUpdate s + 1, seconds t)]"
  by (cases r) (simp_all add: poll_cycle_def Let_def requests_route_all)

lemma requests_poll_cycles:
  "requests (poll_cycles token t rs s) =
     requests s @
     map (\<lambda>k. (token, latestUpdate (poll_cycles token t (take k rs) s) + 1, seconds t))
       [0..<length rs]"
proof (induction rs rule: rev_induct)
  case Nil
  show ?case by (simp add: poll_cycles_Nil)
next
  case (snoc r rs)
  show ?case
    by (simp add: poll_cycles_append poll_cycles_Cons poll_cycles_Nil requests_poll_cycle snoc.IH)
qed

text \<open>
  Go's \<open>latestUpdate+1\<close> wraps around at the largest \<open>int\<close>; below it the offset is
  strictly greater than the cursor.
\<close>

lemma offset_strictly_greater:
  fixes c :: go_int
  assumes "sint c \<noteq> 2 ^ 63 - 1"
  shows "c <s c + 1"
proof -
  have lo: "- (2 ^ 63) \<le> sint c" using sint_ge [of c] by simp
  have hi: "sint c < 2 ^ 63" using sint_lt [of c] by simp
  have "sint (c + 1) = signed_take_bit 63 (sint c + 1)"
    by (simp add: sint_word_ariths)
  also have "\<dots> = sint c + 1"
    using lo hi assms by (intro signed_take_bit_int_eq_self) simp_all
  finally show ?thesis by (simp add: word_sless_alt)
qed

lemma offset_wraps:
  fixes c :: go_int
  assumes "sint c = 2 ^ 63 - 1"
  shows "sint (c + 1) = - (2 ^ 63)"
proof -
  have "c = word_of_int (sint c)" by simp
  with assms have "c = 9223372036854775807" by simp
  then show ?thesis by simp
qed

text \<open>
  C5, as stated: every fetch asks for the updates with identifier strictly greater than
  the current cursor. After an update whose identifier is the largest \<open>int\<close>,
  9223372036854775807, the cursor has that value and the next fetch asks for offset
  cursor + 1, which has wrapped around to the smallest \<open>int\<close>: the cursor is not below
  the requested offset.
\<close>

theorem poll_fetch_offset_wraps_counterexample:
  "\<not> latestUpdate
       (poll \<lparr>Token = ''token'', Identity = (), Messages = None, Queries = None,
               Callbacks = None\<rparr>
          (Some []) None None 30000000000
          [Inr [\<lparr>Update.ID = 9223372036854775807,
                   Payload = Some \<lparr>Message.ID = 1, Text = ''hi''\<rparr>,
                   Query = None, Callback = None\<rparr>]])
     <s fst (snd (last (requests
       (poll \<lparr>Token = ''token'', Identity = (), Messages = None, Queries = None,
               Callbacks = None\<rparr>
          (Some []) None None 30000000000
          [Inr [\<lparr>Update.ID = 9223372036854775807,
                   Payload = Some \<lparr>Message.ID = 1, Text = ''hi''\<rparr>,
                   Query = None, Callback = None\<rparr>],
           Inr []]))))"
  by (simp add: poll_simps word_sless_alt)

text \<open>
  C5, amended. Every fetch of the loop asks for offset cursor + 1 in Go's \<open>int\<close>
  arithmetic, the cursor being the value of \<open>latestUpdate\<close> when the fetch is issued:
  the k-th request carries the cursor reached after the first k answers, plus one. The
  cursor starts at 0, so the first fetch asks for offset 1, and after a cycle that ends
  with cursor C the next fetch asks for C + 1. That offset is strictly greater than the
  cursor whenever the cursor is not the largest \<open>int\<close>; at the largest \<open>int\<close> it is the
  smallest \<open>int\<close>.
\<close>

theorem poll_fetch_offsets:
  "requests (poll b ms qs cs t rs) =
     map (\<lambda>k. (Token b, latestUpdate (poll b ms qs cs t (take k rs)) + 1, seconds t))
       [0..<length rs] \<and>
   latestUpdate (poll b ms qs cs t []) = 0 \<and>
   hd (requests (poll b ms qs cs t (r # rs))) = (Token b, 1, seconds t) \<and>
   requests (poll b ms qs cs t (rs @ [r])) =
     requests (poll b ms qs cs t rs) @
     [(Token b, latestUpdate (poll b ms qs cs t rs) + 1, seconds t)] \<and>
   (sint (latestUpdate (poll b ms qs cs t rs)) \<noteq> 2 ^ 63 - 1 \<longrightarrow>
      latestUpdate (poll b ms qs cs t rs) <s
      fst (snd (last (requests (poll b ms qs cs t (rs @ [r])))))) \<and>
   (sint (latestUpdate (poll b ms qs cs t rs)) = 2 ^ 63 - 1 \<longrightarrow>
      sint (fst (snd (last (requests (poll b ms qs cs t (rs @ [r])))))) = - (2 ^ 63))"
proof -
  have h: "hd (requests (poll b ms qs cs t (r # rs))) = (Token b, 1, seconds t)"
    by (simp add: poll_def requests_poll_cycles poll_cycles_Nil upt_rec)
  have n: "requests (poll b ms qs cs t (rs @ [r])) =
           requests (poll b ms qs cs t rs) @
           [(Token b, latestUpdate (poll b ms qs cs t rs) + 1, seconds t)]"
    by (simp add: poll_def poll_cycles_append poll_cycles_Cons poll_cycles_Nil
        requests_poll_cycle)
  have l: "fst (snd (last (requests (poll b ms qs cs t (rs @ [r]))))) =
           latestUpdate (poll b ms qs cs t rs) + 1"
    by (simp add: n)
  have a: "requests (poll b ms qs cs t rs) =
           map (\<lambda>k. (Token b, latestUpdate (poll b ms qs cs t (take k rs)) + 1, seconds t))
             [0..<length rs]"
    by (simp add: poll_def requests_poll_cycles)
  have z: "latestUpdate (poll b ms qs cs t []) = 0"
    by (simp add: poll_def poll_cycles_Nil)
  show ?thesis
    unfolding l using a z h n offset_strictly_greater offset_wraps by blast
qed

theorem poll_fetch_offsets_witness:
  "sint (latestUpdate
     (poll \<lparr>Token = ''token'', Identity = (), Messages = None, Queries = None,
             Callbacks = None\<rparr>
        (Some []) None None 30000000000
        [Inr [\<lparr>Update.ID = 5, Payload = Some \<lparr>Message.ID = 1, Text = ''hi''\<rparr>,
                 Query = None, Callback = None\<rparr>]])) \<noteq> 2 ^ 63 - 1 \<and>
   latestUpdate
     (poll \<lparr>Token = ''token'', Identity = (), Messages = None, Queries = None,
             Callbacks = None\<rparr>
        (Some []) None None 30000000000
        [Inr [\<lparr>Update.ID = 5, Payload = Some \<lparr>Message.ID = 1, Text = ''hi''\<rparr>,
                 Query = None, Callback = None\<rparr>]])
   <s fst (snd (last (requests
     (poll \<lparr>Token = ''token'', Identity = (), Messages = None, Queries = None,
             Callbacks = None\<rparr>
        (Some []) None None 30000000000
        ([Inr [\<lparr>Update.ID = 5, Payload = Some \<lparr>Message.ID = 1, Text = ''hi''\<rparr>,
                  Query = None, Callback = None\<rparr>]] @ [Inr []]))))) \<and>
   sint (latestUpdate
     (poll \<lparr>Token = ''token'', Identity = (), Messages = None, Queries = None,
             Callbacks = None\<rparr>
        (Some []) None None 30000000000
        [Inr [\<lparr>Update.ID = 9223372036854775807,
                 Payload = Some \<lparr>Message.ID = 1, Text = ''hi''\<rparr>,
                 Query = None, Callback = None\<rparr>]])) = 2 ^ 63 - 1 \<and>
   sint (fst (snd (last (requests
     (poll \<lparr>Token = ''token'', Identity = (), Messages = None, Queries = None,
             Callbacks = None\<rparr>
        (Some []) None None 30000000000
        ([Inr [\<lparr>Update.ID = 9223372036854775807,
                  Payload = Some \<lparr>Message.ID = 1, Text = ''hi''\<rparr>,
                  Query = None, Callback = None\<rparr>]] @ [Inr []])))))) = - (2 ^ 63)"
proof -
  let ?b = "\<lparr>Token = ''token'', Identity = (), Messages = None, Queries = None,
             Callbacks = None\<rparr>"
  let ?rs5 = "[Inr [\<lparr>Update.ID = 5, Payload = Some \<lparr>Message.ID = 1, Text = ''hi''\<rparr>,
                      Query = None, Callback = None\<rparr>]]"
  let ?rsM = "[Inr [\<lparr>Update.ID = 9223372036854775807,
                      Payload = Some \<lparr>Message.ID = 1, Text = ''hi''\<rparr>,
                      Query = None, Callback = None\<rparr>]]"
  have h5: "sint (latestUpdate (poll ?b (Some []) None None 30000000000 ?rs5)) \<noteq> 2 ^ 63 - 1"
    by (simp add: poll_simps)
  have hM: "sint (latestUpdate (poll ?b (Some []) None None 30000000000 ?rsM)) = 2 ^ 63 - 1"
    by (simp add: poll_simps)
  note t5 = poll_fetch_offsets [of ?b "Some []" None None 30000000000 ?rs5 "Inr []",
      THEN conjunct2, THEN conjunct2, THEN conjunct2, THEN conjunct2, THEN conjunct1,
      THEN mp, OF h5]
  note tM = poll_fetch_offsets [of ?b "Some []" None None 30000000000 ?rsM "Inr []",
      THEN conjunct2, THEN conjunct2, THEN conjunct2, THEN conjunct2, THEN conjunct2,
      THEN mp, OF hM]
  from h5 t5 hM tM show ?thesis by (intro conjI)
qed

section \<open>What each channel receives\<close>

lemma fetched_append: "fetched (rs @ rs') = fetched rs @ fetched rs'"
  by (induction rs rule: fetched.induct) simp_all

lemma map_filter_append: "List.map_filter f (xs @ ys) = List.map_filter f xs @ List.map_filter f ys"
  by (simp add: List.map_filter_def)

lemma map_filter_filter_Cons:
  "List.map_filter f (filter p (x # xs)) =
     List.map_filter f (filter p [x]) @ List.map_filter f (filter p xs)"
  by (simp add: List.map_filter_def)

lemma messages_route:
  "messages (route u s) = map_option (\<lambda>ch. ch @ List.map_filter Payload [u]) (messages s)"
  by (simp add: route_def option.map_ident split: option.splits)

lemma queries_route:
  "queries (route u s) =
     map_option (\<lambda>ch. ch @ List.map_filter Update.Query (filter (\<lambda>u. Payload u = None) [u]))
       (queries s)"
  by (simp add: route_def option.map_ident split: option.splits)

lemma callbacks_route:
  "callbacks (route u s) =
     map_option
       (\<lambda>ch. ch @ List.map_filter Update.Callback
                 (filter (\<lambda>u. Payload u = None \<and> Update.Query u = None) [u]))
       (callbacks s)"
  by (simp add: route_def option.map_ident split: option.splits)

lemma messages_route_all:
  "messages (route_all us s) = map_option (\<lambda>ch. ch @ List.map_filter Payload us) (messages s)"
proof (induction us arbitrary: s)
  case Nil
  show ?case by (simp add: route_all_Nil option.map_ident)
next
  case (Cons u us)
  have "List.map_filter Payload (u # us) =
        List.map_filter Payload [u] @ List.map_filter Payload us"
    using map_filter_append [of Payload "[u]" us] by simp
  then show ?case
    by (simp add: route_all_Cons Cons.IH messages_route option.map_comp comp_def)
qed

lemma queries_route_all:
  "queries (route_all us s) =
     map_option (\<lambda>ch. ch @ List.map_filter Update.Query (filter (\<lambda>u. Payload u = None) us))
       (queries s)"
proof (induction us arbitrary: s)
  case Nil
  show ?case by (simp add: route_all_Nil option.map_ident)
next
  case (Cons u us)
  have "List.map_filter Update.Query (filter (\<lambda>u. Payload u = None) (u # us)) =
        List.map_filter Update.Query (filter (\<lambda>u. Payload u = None) [u]) @
        List.map_filter Update.Query (filter (\<lambda>u. Payload u = None) us)"
    by (rule map_filter_filter_Cons)
  then show ?case
    by (simp only: route_all_Cons Cons.IH queries_route option.map_comp comp_def append_assoc)
qed

lemma callbacks_route_all:
  "callbacks (route_all us s) =
     map_option
       (\<lambda>ch. ch @ List.map_filter Update.Callback
                 (filter (\<lambda>u. Payload u = None \<and> Update.Query u = None) us))
       (callbacks s)"
proof (induction us arbitrary: s)
  case Nil
  show ?case by (simp add: route_all_Nil option.map_ident)
next
  case (Cons u us)
  let ?p = "\<lambda>u. Payload u = None \<and> Update.Query u = None"
  have "List.map_filter Update.Callback (filter ?p (u # us)) =
        List.map_filter Update.Callback (filter ?p [u]) @
        List.map_filter Update.Callback (filter ?p us)"
    by (rule map_filter_filter_Cons)
  then show ?case
    by (simp only: route_all_Cons Cons.IH callbacks_route option.map_comp comp_def append_assoc)
qed

lemma messages_poll_cycle:
  "messages (poll_cycle token t r s) =
     map_option (\<lambda>ch. ch @ List.map_filter Payload (fetched [r])) (messages s)"
  by (cases r)
    (simp_all add: poll_cycle_def Let_def messages_route_all option.map_ident)

lemma queries_poll_cycle:
  "queries (poll_cycle token t r s) =
     map_option
       (\<lambda>ch. ch @ List.map_filter Update.Query (filter (\<lambda>u. Payload u = None) (fetched [r])))
       (queries s)"
  by (cases r)
    (simp_all add: poll_cycle_def Let_def queries_route_all option.map_ident)

lemma callbacks_poll_cycle:
  "callbacks (poll_cycle token t r s) =
     map_option
       (\<lambda>ch. ch @ List.map_filter Update.Callback
                 (filter (\<lambda>u. Payload u = None \<and> Update.Query u = None) (fetched [r])))
       (callbacks s)"
  by (cases r)
    (simp_all add: poll_cycle_def Let_def callbacks_route_all option.map_ident)

lemma messages_poll_cycles:
  "messages (poll_cycles token t rs s) =
     map_option (\<lambda>ch. ch @ List.map_filter Payload (fetched rs)) (messages s)"
proof (induction rs arbitrary: s)
  case Nil
  show ?case by (simp add: poll_cycles_Nil option.map_ident)
next
  case (Cons r rs)
  have "fetched (r # rs) = fetched [r] @ fetched rs"
    using fetched_append [of "[r]" rs] by simp
  then show ?case
    by (simp add: poll_cycles_Cons Cons.IH messages_poll_cycle option.map_comp comp_def
        map_filter_append)
qed

lemma queries_poll_cycles:
  "queries (poll_cycles token t rs s) =
     map_option
       (\<lambda>ch. ch @ List.map_filter Update.Query (filter (\<lambda>u. Payload u = None) (fetched rs)))
       (queries s)"
proof (induction rs arbitrary: s)
  case Nil
  show ?case by (simp add: poll_cycles_Nil option.map_ident)
next
  case (Cons r rs)
  have "fetched (r # rs) = fetched [r] @ fetched rs"
    using fetched_append [of "[r]" rs] by simp
  then show ?case
    by (simp add: poll_cycles_Cons Cons.IH queries_poll_cycle option.map_comp comp_def
        map_filter_append)
qed

lemma callbacks_poll_cycles:
  "callbacks (poll_cycles token t rs s) =
     map_option
       (\<lambda>ch. ch @ List.map_filter Update.Callback
                 (filter (\<lambda>u. Payload u = None \<and> Update.Query u = None) (fetched rs)))
       (callbacks s)"
proof (induction rs arbitrary: s)
  case Nil
  show ?case by (simp add: poll_cycles_Nil option.map_ident)
next
  case (Cons r rs)
  have "fetched (r # rs) = fetched [r] @ fetched rs"
    using fetched_append [of "[r]" rs] by simp
  then show ?case
    by (simp add: poll_cycles_Cons Cons.IH callbacks_poll_cycle option.map_comp comp_def
        map_filter_append)
qed

text \<open>
  C8. With the query and callback channels unset, as in a loop started by \<open>Listen\<close>,
  whatever the fetches return the query and callback channels stay unset, so nothing is
  ever sent on them, and what has been sent on the message channel is exactly the
  messages of the fetched updates that carry one, in order: query and callback updates
  leave no trace on any channel.
\<close>

theorem poll_channel_isolation:
  "Listen b subscription t rs = poll b subscription None None t rs \<and>
   queries (poll b subscription None None t rs) = None \<and>
   callbacks (poll b subscription None None t rs) = None \<and>
   messages (poll b subscription None None t rs) =
     map_option (\<lambda>ch. ch @ List.map_filter Payload (fetched rs)) subscription"
  by (simp add: Listen_def poll_def messages_poll_cycles queries_poll_cycles
      callbacks_poll_cycles)

lemma map_filter_one_slot:
  assumes "\<forall>u\<in>set us. p u \<or> f u = None"
  shows "List.map_filter f (filter p us) = List.map_filter f us"
  using assms
proof (induction us)
  case Nil
  show ?case by simp
next
  case (Cons u us)
  then have IH: "List.map_filter f (filter p us) = List.map_filter f us"
    and u: "p u \<or> f u = None"
    by simp_all
  show ?case
  proof (cases "p u")
    case True
    then show ?thesis by (cases "f u") (simp_all add: IH)
  next
    case False
    with u have "f u = None" by simp
    with False show ?thesis by (simp add: IH)
  qed
qed

text \<open>
  C9. The updates of a batch are routed in the order of the batch: the state after a
  batch \<open>us @ ws\<close> is reached by routing \<open>ws\<close> from the state after \<open>us\<close>. For a batch
  of updates with at most one populated payload slot each, what a channel that is set
  has received after the cycle is what it held before followed by exactly the payloads
  of its own kind in the batch, in batch order; updates of another kind and updates
  without payload add nothing to it, and a channel that is unset stays unset. The
  order of the identifiers plays no part.
\<close>

theorem poll_cycle_channel_order:
  assumes "\<forall>u\<in>set us.
             (Payload u = None \<or> Update.Query u = None) \<and>
             (Payload u = None \<or> Update.Callback u = None) \<and>
             (Update.Query u = None \<or> Update.Callback u = None)"
  shows "messages (poll_cycle token t (Inr us) s) =
           map_option (\<lambda>ch. ch @ List.map_filter Payload us) (messages s) \<and>
         queries (poll_cycle token t (Inr us) s) =
           map_option (\<lambda>ch. ch @ List.map_filter Update.Query us) (queries s) \<and>
         callbacks (poll_cycle token t (Inr us) s) =
           map_option (\<lambda>ch. ch @ List.map_filter Update.Callback us) (callbacks s) \<and>
         poll_cycle token t (Inr (us @ ws)) s = route_all ws (poll_cycle token t (Inr us) s)"
proof -
  have q: "List.map_filter Update.Query (filter (\<lambda>u. Payload u = None) us) =
           List.map_filter Update.Query us"
    using assms by (intro map_filter_one_slot ballI) auto
  have c: "List.map_filter Update.Callback
             (filter (\<lambda>u. Payload u = None \<and> Update.Query u = None) us) =
           List.map_filter Update.Callback us"
    using assms by (intro map_filter_one_slot ballI) auto
  have o: "poll_cycle token t (Inr (us @ ws)) s = route_all ws (poll_cycle token t (Inr us) s)"
    by (simp add: poll_cycle_def Let_def route_all_append)
  show ?thesis
    using q c o by (simp add: messages_poll_cycle queries_poll_cycle callbacks_poll_cycle)
qed

theorem poll_cycle_channel_order_witness:
  "messages
     (poll_cycle ''token'' 30000000000
        (Inr [\<lparr>Update.ID = 5, Payload = Some \<lparr>Message.ID = 1, Text = ''a''\<rparr>,
                 Query = None, Callback = None\<rparr>,
              \<lparr>Update.ID = 6, Payload = None, Query = Some \<lparr>Query.ID = ''q1'', Text = ''x''\<rparr>,
                 Callback = None\<rparr>,
              \<lparr>Update.ID = 7, Payload = Some \<lparr>Message.ID = 2, Text = ''b''\<rparr>,
                 Query = None, Callback = None\<rparr>])
        \<lparr>latestUpdate = 4, messages = Some [], queries = Some [], callbacks = None,
         requests = [], logged = []\<rparr>)
   = Some [\<lparr>Message.ID = 1, Text = ''a''\<rparr>, \<lparr>Message.ID = 2, Text = ''b''\<rparr>] \<and>
   queries
     (poll_cycle ''token'' 30000000000
        (Inr [\<lparr>Update.ID = 5, Payload = Some \<lparr>Message.ID = 1, Text = ''a''\<rparr>,
                 Query = None, Callback = None\<rparr>,
              \<lparr>Update.ID = 6, Payload = None, Query = Some \<lparr>Query.ID = ''q1'', Text = ''x''\<rparr>,
                 Callback = None\<rparr>,
              \<lparr>Update.ID = 7, Payload = Some \<lparr>Message.ID = 2, Text = ''b''\<rparr>,
                 Query = None, Callback = None\<rparr>])
        \<lparr>latestUpdate = 4, messages = Some [], queries = Some [], callbacks = None,
         requests = [], logged = []\<rparr>)
   = Some [\<lparr>Query.ID = ''q1'', Text = ''x''\<rparr>]"
  using poll_cycle_channel_order
    [of "[\<lparr>Update.ID = 5, Payload = Some \<lparr>Message.ID = 1, Text = ''a''\<rparr>,
             Query = None, Callback = None\<rparr>,
          \<lparr>Update.ID = 6, Payload = None, Query = Some \<lparr>Query.ID = ''q1'', Text = ''x''\<rparr>,
             Callback = None\<rparr>,
          \<lparr>Update.ID = 7, Payload = Some \<lparr>Message.ID = 2, Text = ''b''\<rparr>,
             Query = None, Callback = None\<rparr>]"
        "''token''" "30000000000"
        "\<lparr>latestUpdate = 4, messages = Some [], queries = Some [], callbacks = None,
          requests = [], logged = []\<rparr>" "[]"]
  by simp

section \<open>The cursor\<close>

















section \<open>Answering queries: the response object\<close>

text \<open>
  C10. \<open>AnswerInlineQuery\<close> writes \<open>query.ID\<close> into \<open>response.QueryID\<close> and
  \<open>AnswerCallbackQuery\<close> writes \<open>callback.ID\<close> into \<open>response.CallbackID\<close> before the
  remote call: whatever the call and the decoding return, the caller's response object
  carries the identifier afterwards and is otherwise as it was; the remote call is made
  with the object so changed, and when that call fails the function returns its error
  and the object stays changed.
\<close>

theorem Answer_sets_response_id:
  "map_option fst (AnswerInlineQuery sendQ unmarshal b (Some q) (Some r)) =
     Some (r\<lparr>QueryID := Query.ID q\<rparr>) \<and>
   (sendQ ''answerInlineQuery'' (Token b) (r\<lparr>QueryID := Query.ID q\<rparr>) = Inl err \<longrightarrow>
      AnswerInlineQuery sendQ unmarshal b (Some q) (Some r) =
        Some (r\<lparr>QueryID := Query.ID q\<rparr>, Some err)) \<and>
   map_option fst (AnswerCallbackQuery sendC unmarshal b (Some c) (Some r')) =
     Some (r'\<lparr>CallbackID := Callback.ID c\<rparr>) \<and>
   (sendC ''answerCallbackQuery'' (Token b) (r'\<lparr>CallbackID := Callback.ID c\<rparr>) = Inl err' \<longrightarrow>
      AnswerCallbackQuery sendC unmarshal b (Some c) (Some r') =
        Some (r'\<lparr>CallbackID := Callback.ID c\<rparr>, Some err'))"
  by (simp add: AnswerInlineQuery_def AnswerCallbackQuery_def Let_def split: sum.splits)

theorem Answer_sets_response_id_witness:
  "AnswerInlineQuery (\<lambda>method token payload. Inl (''no answer for '' @ QueryID payload))
     (\<lambda>responseJSON. Inl ''unexpected end of JSON input'')
     \<lparr>Token = ''token'', Identity = (), Messages = None, Queries = None, Callbacks = None\<rparr>
     (Some \<lparr>Query.ID = ''q1'', Text = ''cats''\<rparr>)
     (Some \<lparr>QueryID = ''old'', CacheTime = 60\<rparr>)
   = Some (\<lparr>QueryID = ''q1'', CacheTime = 60\<rparr>, Some ''no answer for q1'') \<and>
   AnswerCallbackQuery (\<lambda>method token payload. Inl (''no answer for '' @ CallbackID payload))
     (\<lambda>responseJSON. Inl ''unexpected end of JSON input'')
     \<lparr>Token = ''token'', Identity = (), Messages = None, Queries = None, Callbacks = None\<rparr>
     (Some \<lparr>Callback.ID = ''c1'', Data = ''yes''\<rparr>)
     (Some \<lparr>CallbackID = ''old'', Text = ''done''\<rparr>)
   = Some (\<lparr>CallbackID = ''c1'', Text = ''done''\<rparr>, Some ''no answer for c1'')"
  using Answer_sets_response_id
    [of "\<lambda>method token payload. Inl (''no answer for '' @ QueryID payload)"
        "\<lambda>responseJSON. Inl ''unexpected end of JSON input''"
        "\<lparr>Token = ''token'', Identity = (), Messages = None, Queries = None, Callbacks = None\<rparr>"
        "\<lparr>Query.ID = ''q1'', Text = ''cats''\<rparr>"
        "\<lparr>QueryID = ''old'', CacheTime = 60\<rparr>"
        "''no answer for q1''"
        "\<lambda>method token payload. Inl (''no answer for '' @ CallbackID payload)"
        "\<lparr>Callback.ID = ''c1'', Data = ''yes''\<rparr>"
        "\<lparr>CallbackID = ''old'', Text = ''done''\<rparr>"
        "''no answer for c1''"]
  by simp

end
